theory Spec2Isabelle
  imports Main "HOL-Library.Word" "HOL-Library.List_Lexorder" "HOL-Library.Product_Lexorder"
    "HOL-Library.Char_ord" "HOL-Library.AList" "HOL-Library.Multiset"
begin

section \<open>Bytes, errors and opcodes\<close>

text \<open>
  The embedding follows \<^verbatim>\<open>src/electrum/transaction.py\<close>.  A Python \<^verbatim>\<open>bytes\<close> value is a
  list of 8-bit words.  The source moves freely between \<^verbatim>\<open>bytes\<close> and their hexadecimal
  text (\<^verbatim>\<open>bfh\<close>, \<^verbatim>\<open>bh2u\<close>, \<^verbatim>\<open>.hex()\<close>); a hexadecimal string is represented here by the
  byte string it denotes, so that \<^verbatim>\<open>len(script) // 2\<close> on hex text is \<open>length\<close> on bytes and
  string concatenation of hex text is \<open>@\<close>.
\<close>

type_synonym byte = "8 word"
type_synonym bytes = "byte list"

text \<open>The exception classes of the module, and the builtin exceptions its code can raise.\<close>

datatype error =
    SerializationError
  | UnknownTxinType
  | BadHeaderMagic
  | UnexpectedEndOfStream
  | PSBTInputConsistencyFailure
  | MalformedBitcoinScript
  | MissingTxInputAmount
  | NotImplementedError
  | IndexError
  | AssertionError
  | AttributeError
  | TypeError
  | OverflowError
  | StructError
  | PyException

text \<open>
  The opcode table \<^verbatim>\<open>ravencoin.opcodes\<close> is imported by the module but defined elsewhere;
  the values below are the ones of the Bitcoin script language, and \<^verbatim>\<open>OP_RVN_ASSET\<close> is the
  Ravencoin asset marker.
\<close>

abbreviation (input) OP_0 :: nat where "OP_0 \<equiv> 0"
abbreviation (input) OP_PUSHDATA1 :: nat where "OP_PUSHDATA1 \<equiv> 76"
abbreviation (input) OP_PUSHDATA2 :: nat where "OP_PUSHDATA2 \<equiv> 77"
abbreviation (input) OP_PUSHDATA4 :: nat where "OP_PUSHDATA4 \<equiv> 78"
abbreviation (input) OP_1 :: nat where "OP_1 \<equiv> 81"
abbreviation (input) OP_16 :: nat where "OP_16 \<equiv> 96"
abbreviation (input) OP_DUP :: nat where "OP_DUP \<equiv> 118"
abbreviation (input) OP_EQUAL :: nat where "OP_EQUAL \<equiv> 135"
abbreviation (input) OP_EQUALVERIFY :: nat where "OP_EQUALVERIFY \<equiv> 136"
abbreviation (input) OP_HASH160 :: nat where "OP_HASH160 \<equiv> 169"
abbreviation (input) OP_CODESEPARATOR :: nat where "OP_CODESEPARATOR \<equiv> 171"
abbreviation (input) OP_CHECKSIG :: nat where "OP_CHECKSIG \<equiv> 172"
abbreviation (input) OP_CHECKMULTISIG :: nat where "OP_CHECKMULTISIG \<equiv> 174"
abbreviation (input) OP_RVN_ASSET :: nat where "OP_RVN_ASSET \<equiv> 192"

section \<open>The script walker\<close>

text \<open>Little-endian reading of an unsigned integer, as \<^verbatim>\<open>struct.unpack_from('<H' / '<I')\<close> does.\<close>

fun le_uint :: "bytes \<Rightarrow> nat" where
  "le_uint [] = 0"
| "le_uint (b # bs) = unat b + 256 * le_uint bs"

text \<open>
  \<^verbatim>\<open>struct.unpack_from(fmt, buf, i)\<close> for an unsigned format of \<open>w\<close> bytes: it raises
  \<^verbatim>\<open>struct.error\<close> (here \<open>None\<close>) unless \<open>w\<close> bytes are available at offset \<open>i\<close>.
\<close>

definition unpack_from :: "nat \<Rightarrow> bytes \<Rightarrow> nat \<Rightarrow> nat option" where
  "unpack_from w buf i =
     (if i + w \<le> length buf then Some (le_uint (take w (drop i buf))) else None)"

text \<open>One step of the walker yields \<^verbatim>\<open>(opcode, vch, i)\<close>; \<^verbatim>\<open>vch\<close> is \<^verbatim>\<open>None\<close> for a non-push.\<close>

type_synonym script_op = "nat \<times> bytes option \<times> nat"

text \<open>
  The size of a push and the cursor after its length prefix (lines 481--493): the
  opcode itself for a direct push, the 1, 2 or 4 bytes that follow for
  \<^verbatim>\<open>OP_PUSHDATA1/2/4\<close>.  Only a missing length prefix raises.
\<close>

definition push_size :: "bytes \<Rightarrow> nat \<Rightarrow> nat \<Rightarrow> error + (nat \<times> nat)" where
  "push_size bs opcode i =
     (if opcode = OP_PUSHDATA1 then
        (if i < length bs then Inr (unat (bs ! i), i + 1) else Inl MalformedBitcoinScript)
      else if opcode = OP_PUSHDATA2 then
        (case unpack_from 2 bs i of
           None \<Rightarrow> Inl MalformedBitcoinScript
         | Some nSize \<Rightarrow> Inr (nSize, i + 2))
      else if opcode = OP_PUSHDATA4 then
        (case unpack_from 4 bs i of
           None \<Rightarrow> Inl MalformedBitcoinScript
         | Some nSize \<Rightarrow> Inr (nSize, i + 4))
      else Inr (opcode, i))"

lemma push_size_cursor: "push_size bs opcode i = Inr (nSize, j) \<Longrightarrow> i \<le> j"
  by (auto simp: push_size_def split: if_splits option.splits)

text \<open>
  \<^verbatim>\<open>script_GetOp\<close> is a generator; every consumer modelled here exhausts it, so the model
  returns the list of everything it yields, or the error it raises on the way.  The
  payload is the slice \<^verbatim>\<open>_bytes[i:i + nSize]\<close>, which Python cuts at the end of the buffer
  without raising.
\<close>

function script_GetOp_from :: "bytes \<Rightarrow> nat \<Rightarrow> error + script_op list" where
  "script_GetOp_from bs i =
     (if i < length bs then
        (let opcode = unat (bs ! i); i1 = i + 1 in
         if opcode \<le> OP_PUSHDATA4 then
           (case push_size bs opcode i1 of
              Inl e \<Rightarrow> Inl e
            | Inr (nSize, i2) \<Rightarrow>
                (case script_GetOp_from bs (i2 + nSize) of
                   Inl e \<Rightarrow> Inl e
                 | Inr rest \<Rightarrow>
                     Inr ((opcode, Some (take nSize (drop i2 bs)), i2 + nSize) # rest)))
         else
           (case script_GetOp_from bs i1 of
              Inl e \<Rightarrow> Inl e
            | Inr rest \<Rightarrow> Inr ((opcode, None, i1) # rest)))
      else Inr [])"
  by pat_completeness auto
termination
  by (relation "measure (\<lambda>(bs, i). length bs - i)")
     (auto dest!: push_size_cursor)

declare script_GetOp_from.simps [simp del]

definition script_GetOp :: "bytes \<Rightarrow> error + script_op list" where
  "script_GetOp bs = script_GetOp_from bs 0"

section \<open>Template matching\<close>

text \<open>
  A template item is an \<^verbatim>\<open>OPPushDataGeneric\<close> carrying its \<^verbatim>\<open>check_data_len\<close> predicate,
  an \<^verbatim>\<open>OPGeneric\<close> carrying its \<^verbatim>\<open>matcher\<close>, or a plain opcode.
\<close>

datatype template_item =
    OPPushDataGeneric "nat \<Rightarrow> bool"
  | OPGeneric "nat \<Rightarrow> bool"
  | Opcode nat

text \<open>
  The three tests of the matching loop (lines 607--611).  Both generic tests look at the
  opcode \<^verbatim>\<open>script_item[0]\<close>; a generic item is never equal to an integer opcode.
\<close>

fun push_generic_accepts :: "template_item \<Rightarrow> nat \<Rightarrow> bool" where
  "push_generic_accepts (OPPushDataGeneric check_data_len) op = check_data_len op"
| "push_generic_accepts _ op = False"

fun op_generic_accepts :: "template_item \<Rightarrow> nat \<Rightarrow> bool" where
  "op_generic_accepts (OPGeneric matcher) op = matcher op"
| "op_generic_accepts _ op = False"

fun item_differs :: "template_item \<Rightarrow> nat \<Rightarrow> bool" where
  "item_differs (Opcode n) op = (n \<noteq> op)"
| "item_differs _ op = True"

text \<open>The search for the first \<^verbatim>\<open>OP_RVN_ASSET\<close> (lines 589--594), from index \<open>i\<close> on.\<close>

function find_op_rvn_asset :: "script_op list \<Rightarrow> nat \<Rightarrow> nat" where
  "find_op_rvn_asset script i =
     (if i < length script then
        (if fst (script ! i) = OP_RVN_ASSET then i else find_op_rvn_asset script (i + 1))
      else length script)"
  by pat_completeness auto
termination
  by (relation "measure (\<lambda>(script, i). length script - i)") auto

declare find_op_rvn_asset.simps [simp del]

text \<open>The item-by-item loop (lines 603--615), from index \<open>i\<close> on.\<close>

function match_items_from :: "script_op list \<Rightarrow> template_item list \<Rightarrow> nat \<Rightarrow> bool" where
  "match_items_from script template i =
     (if i < length script then
        (let template_item = template ! i; script_item = script ! i in
         if push_generic_accepts template_item (fst script_item) then
           match_items_from script template (i + 1)
         else if op_generic_accepts template_item (fst script_item) then
           match_items_from script template (i + 1)
         else if item_differs template_item (fst script_item) then False
         else match_items_from script template (i + 1))
      else True)"
  by pat_completeness auto
termination
  by (relation "measure (\<lambda>(script, template, i). length script - i)") auto

declare match_items_from.simps [simp del]

text \<open>The argument \<^verbatim>\<open>script\<close> is \<^verbatim>\<open>None\<close>, raw bytes, or an already decoded script.\<close>

datatype script_arg =
    ScriptNone
  | ScriptBytes bytes
  | ScriptDecoded "script_op list"

definition match_decoded :: "script_op list \<Rightarrow> template_item list \<Rightarrow> bool" where
  "match_decoded decoded template =
     (let op_rvn_asset = find_op_rvn_asset decoded 0;
          script = take op_rvn_asset decoded
      in if length script \<noteq> length template then False
         else match_items_from script template 0)"

definition match_script_against_template :: "script_arg \<Rightarrow> template_item list \<Rightarrow> bool" where
  "match_script_against_template script template =
     (case script of
        ScriptNone \<Rightarrow> False
      | ScriptBytes bs \<Rightarrow>
          (case script_GetOp bs of
             Inl e \<Rightarrow> False
           | Inr decoded \<Rightarrow> match_decoded decoded template)
      | ScriptDecoded decoded \<Rightarrow> match_decoded decoded template)"

text \<open>
  The reference the matcher is compared with, following the specification's words: a
  decoded script matches a template when both have the same length and every opcode is
  accepted by the item at its position.  It does no truncation.
\<close>

fun item_accepts :: "template_item \<Rightarrow> nat \<Rightarrow> bool" where
  "item_accepts (OPPushDataGeneric check_data_len) op = check_data_len op"
| "item_accepts (OPGeneric matcher) op = matcher op"
| "item_accepts (Opcode n) op = (n = op)"

definition plain_template_match :: "script_op list \<Rightarrow> template_item list \<Rightarrow> bool" where
  "plain_template_match script template =
     list_all2 (\<lambda>script_item template_item. item_accepts template_item (fst script_item))
       script template"

text \<open>The prefix of a decoded script that strictly precedes the first \<^verbatim>\<open>OP_RVN_ASSET\<close>.\<close>

definition before_rvn_asset :: "script_op list \<Rightarrow> script_op list" where
  "before_rvn_asset decoded = takeWhile (\<lambda>script_item. fst script_item \<noteq> OP_RVN_ASSET) decoded"

section \<open>Transaction outputs\<close>

text \<open>
  An output value is an integer or a string (the ``max-spend'' marker); Python compares
  the two kinds as unequal.
\<close>

datatype tx_value = IntValue int | StrValue string

record TxOutput =
  scriptpubkey :: bytes
  value' :: tx_value
  asset :: "string option"

text \<open>The right operand of \<^verbatim>\<open>__eq__\<close> is any object; only a \<^verbatim>\<open>TxOutput\<close> can be equal.\<close>

datatype 'o py_object = ObjTxOutput 'o | ObjOther

fun TxOutput_eq :: "'a TxOutput_scheme \<Rightarrow> 'b TxOutput_scheme py_object \<Rightarrow> bool" where
  "TxOutput_eq self ObjOther = False"
| "TxOutput_eq self (ObjTxOutput other) =
     (scriptpubkey self = scriptpubkey other \<and> value' self = value' other)"

definition TxOutput_ne :: "'a TxOutput_scheme \<Rightarrow> 'b TxOutput_scheme py_object \<Rightarrow> bool" where
  "TxOutput_ne self other = (\<not> TxOutput_eq self other)"

section \<open>Results, integers on the wire\<close>

text \<open>Sequencing of computations that may raise: the first error ends the computation.\<close>

definition bind_result :: "error + 'a \<Rightarrow> ('a \<Rightarrow> error + 'b) \<Rightarrow> error + 'b" where
  "bind_result m f = (case m of Inl e \<Rightarrow> Inl e | Inr x \<Rightarrow> f x)"

text \<open>
  \<^verbatim>\<open>[f(x) for x in xs]\<close> and \<^verbatim>\<open>''.join(f(x) for x in xs)\<close> where \<open>f\<close> may raise: the
  pieces are computed from left to right.
\<close>

fun map_results :: "('a \<Rightarrow> error + 'b) \<Rightarrow> 'a list \<Rightarrow> error + 'b list" where
  "map_results f [] = Inr []"
| "map_results f (x # xs) =
     bind_result (f x) (\<lambda>y. bind_result (map_results f xs) (\<lambda>ys. Inr (y # ys)))"

fun join_results :: "('a \<Rightarrow> error + bytes) \<Rightarrow> 'a list \<Rightarrow> error + bytes" where
  "join_results f [] = Inr []"
| "join_results f (x # xs) =
     bind_result (f x) (\<lambda>s. bind_result (join_results f xs) (\<lambda>rest. Inr (s @ rest)))"

text \<open>Python's \<^verbatim>\<open>xs[i]\<close>: a negative index counts from the end, out of range raises.\<close>

definition py_index :: "'a list \<Rightarrow> int \<Rightarrow> error + 'a" where
  "py_index xs i =
     (if 0 \<le> i \<and> i < int (length xs) then Inr (xs ! nat i)
      else if i < 0 \<and> - int (length xs) \<le> i then Inr (xs ! nat (int (length xs) + i))
      else Inl IndexError)"

text \<open>Truth value of an optional string or byte string: \<^verbatim>\<open>None\<close> and the empty one are false.\<close>

definition truthy :: "'a list option \<Rightarrow> bool" where
  "truthy x = (case x of None \<Rightarrow> False | Some v \<Rightarrow> v \<noteq> [])"

text \<open>The \<open>w\<close> low bytes of a natural number, least significant first.\<close>

fun le_bytes :: "nat \<Rightarrow> nat \<Rightarrow> bytes" where
  "le_bytes 0 n = []"
| "le_bytes (Suc w) n = of_nat (n mod 256) # le_bytes w (n div 256)"

text \<open>
  Modelled from the spec: \<^verbatim>\<open>int_to_hex\<close> and \<^verbatim>\<open>var_int\<close> are imported from the \<^verbatim>\<open>ravencoin\<close>
  module, which is not among the sources.  Section 4.1 of the specification fixes them:
  fixed-width little-endian integers (two's complement for a negative value, out of range
  is an error), and the compact-size integer (below 253 a single byte; 253 and 16 bits;
  254 and 32 bits; 255 and 64 bits), which \<^verbatim>\<open>BCDataStream.write_compact_size\<close> (lines
  443--458) writes in the same way.  \<^verbatim>\<open>var_int\<close> is only applied to lengths of sequences
  held in memory, which are below \<open>2\<^sup>6\<^sup>4\<close>.
\<close>

definition int_to_hex :: "int \<Rightarrow> nat \<Rightarrow> error + bytes" where
  "int_to_hex i len =
     (if i < - (256 ^ len div 2) \<or> 256 ^ len \<le> i then Inl OverflowError
      else Inr (le_bytes len (nat (i mod 256 ^ len))))"

definition var_int :: "nat \<Rightarrow> bytes" where
  "var_int i =
     (if i < 253 then le_bytes 1 i
      else if i \<le> 65535 then 253 # le_bytes 2 i
      else if i \<le> 4294967295 then 254 # le_bytes 4 i
      else 255 # le_bytes 8 i)"

text \<open>\<^verbatim>\<open>value.to_bytes(8, byteorder="little", signed=False)\<close> on an output value (line 142).\<close>

fun value_to_bytes8 :: "tx_value \<Rightarrow> error + bytes" where
  "value_to_bytes8 (IntValue v) =
     (if v < 0 \<or> 2 ^ 64 \<le> v then Inl OverflowError else Inr (le_bytes 8 (nat v)))"
| "value_to_bytes8 (StrValue s) = Inl AttributeError"

section \<open>Outpoints, inputs, outputs\<close>

record TxOutpoint =
  txid :: bytes
  out_idx :: int

definition TxOutpoint_serialize_to_network :: "TxOutpoint \<Rightarrow> error + bytes" where
  "TxOutpoint_serialize_to_network p =
     bind_result (int_to_hex (out_idx p) 4) (\<lambda>idx. Inr (rev (txid p) @ idx))"

definition is_coinbase :: "TxOutpoint \<Rightarrow> bool" where
  "is_coinbase p = (txid p = replicate 32 0)"

text \<open>The serialization of an output (lines 138--146); it applies to every subclass.\<close>

definition TxOutput_serialize_to_network :: "'a TxOutput_scheme \<Rightarrow> error + bytes" where
  "TxOutput_serialize_to_network self =
     bind_result (if truthy (asset self) then Inr (replicate 8 0)
                  else value_to_bytes8 (value' self))
       (\<lambda>buf. Inr (buf @ var_int (length (scriptpubkey self)) @ scriptpubkey self))"

record TxInput =
  prevout :: TxOutpoint
  script_sig :: "bytes option"
  nsequence :: int
  witness :: "bytes option"
  is_coinbase_output' :: bool
  sighash :: "int option"

definition is_coinbase_input :: "'a TxInput_scheme \<Rightarrow> bool" where
  "is_coinbase_input self = is_coinbase (prevout self)"

text \<open>\<^verbatim>\<open>TxInput.is_segwit\<close> (lines 345--348).\<close>

definition TxInput_is_segwit :: "'a TxInput_scheme \<Rightarrow> bool" where
  "TxInput_is_segwit self = (witness self \<notin> {Some [0], Some [], None})"

text \<open>
  \<^verbatim>\<open>RavenValue\<close> comes from the \<^verbatim>\<open>util\<close> module: an amount of the base coin and a
  dictionary of asset amounts in insertion order.
\<close>

record RavenValue =
  rvn_value :: tx_value
  assets :: "(string \<times> tx_value) list"

text \<open>
  A partial input.  The type \<open>'u\<close> is the class of the object kept as the previous
  transaction (\<^verbatim>\<open>_utxo\<close>); the module only calls its methods, which are collected in the
  record \<open>env\<close> below.  Dictionaries are association lists in insertion order.  The
  caches \<^verbatim>\<open>_is_p2sh_segwit\<close> and \<^verbatim>\<open>_is_native_segwit\<close> are fields; the functions that fill
  them return the value they would store.
\<close>

record 'u PartialTxInput = TxInput +
  utxo :: "'u option"
  witness_utxo :: "TxOutput option"
  part_sigs :: "(bytes \<times> bytes) list"
  bip32_paths :: "(bytes \<times> bytes \<times> int list) list"
  redeem_script :: "bytes option"
  witness_script :: "bytes option"
  unknown :: "(bytes \<times> bytes) list"
  script_type :: string
  num_sig :: int
  pubkeys :: "bytes list"
  trusted_value_sats :: "RavenValue option"
  trusted_address :: "string option"
  block_height :: "int option"
  spent_height :: "int option"
  spent_txid :: "string option"
  is_p2sh_segwit_cache :: "bool option"
  is_native_segwit_cache :: "bool option"
  witness_sizehint :: "nat option"

record PartialTxOutput = TxOutput +
  txout_redeem_script :: "bytes option"
  txout_witness_script :: "bytes option"
  txout_bip32_paths :: "(bytes \<times> bytes \<times> int list) list"
  txout_unknown :: "(bytes \<times> bytes) list"
  txout_script_type :: string
  txout_num_sig :: int
  txout_pubkeys :: "bytes list"
  is_mine :: bool
  is_change :: bool

text \<open>The wallet is only asked for its table of non-standard outpoints (line 1090).\<close>

record Abstract_Wallet =
  nonstandard_outpoints :: "(TxOutpoint \<times> bytes) list"

text \<open>
  A transaction after \<^verbatim>\<open>deserialize()\<close>: its fields, the inputs and outputs being of the
  class the transaction holds.  Dictionaries keyed by \<^verbatim>\<open>prevout.to_str()\<close> are keyed by the
  outpoint itself.
\<close>

record ('i, 'o) Transaction =
  version :: int
  locktime :: int
  inputs :: "'i list"
  outputs :: "'o list"
  for_swap :: bool
  cached_network_ser :: "bytes option"
  cached_txid :: "bytes option"

record 'u PartialTransaction = "('u PartialTxInput, PartialTxOutput) Transaction" +
  xpubs :: "(bytes \<times> bytes \<times> int list) list"
  global_unknown :: "(bytes \<times> bytes) list"
  prevout_overrides :: "(TxOutpoint \<times> bytes) list"
  tx_wallet :: "Abstract_Wallet option"

text \<open>Items handed to \<^verbatim>\<open>construct_script\<close> and \<^verbatim>\<open>construct_witness\<close>.\<close>

datatype script_item = ItemOpcode nat | ItemInt int | ItemData bytes

text \<open>The text a transaction is printed as: hexadecimal network bytes, or a base64 PSBT.\<close>

datatype tx_text = HexText bytes | Base64Text bytes

text \<open>
  What the module imports from the rest of the program (\<^verbatim>\<open>crypto\<close>, \<^verbatim>\<open>ravencoin\<close>, \<^verbatim>\<open>assets\<close>,
  \<^verbatim>\<open>constants\<close>), and the methods of the objects kept as previous transactions.  None of
  it is fixed here: every property below holds for every \<open>env\<close>.  The field
  \<open>tx_from_any\<close> stands for the wire parsers that \<^verbatim>\<open>tx_from_any\<close> reaches (lines 907--936
  and 2000--2094), applied to the text of a transaction; \<open>xpub_records\<close> stands for the
  records of the global extended keys (lines 2117--2119), whose order and key bytes are
  those of the class \<^verbatim>\<open>BIP32Node\<close>.
\<close>

record 'u env =
  sha256d :: "bytes \<Rightarrow> bytes"
  hash_160 :: "bytes \<Rightarrow> bytes"
  hash160_to_p2pkh :: "bytes \<Rightarrow> string"
  hash160_to_p2sh :: "bytes \<Rightarrow> string"
  hash_to_segwit_addr :: "bytes \<Rightarrow> nat \<Rightarrow> string option"
  is_segwit_address :: "string \<Rightarrow> bool"
  is_segwit_script_type :: "string \<Rightarrow> bool"
  address_to_script :: "string \<Rightarrow> error + bytes"
  construct_script :: "script_item list \<Rightarrow> bytes"
  construct_witness :: "script_item list \<Rightarrow> bytes"
  pubkeyhash_to_p2pkh_script :: "bytes \<Rightarrow> bytes"
  public_key_to_p2pk_script :: "bytes \<Rightarrow> bytes"
  p2wsh_nested_script :: "bytes \<Rightarrow> bytes"
  script_to_p2wsh :: "bytes \<Rightarrow> string"
  guess_asset_script_for_vin ::
    "bytes \<Rightarrow> string \<Rightarrow> tx_value \<Rightarrow> 'u PartialTxInput \<Rightarrow> Abstract_Wallet option \<Rightarrow> error + bytes"
  BURN_ADDRESSES :: "string list"
  utxo_txid :: "'u \<Rightarrow> error + bytes option"
  utxo_outputs :: "'u \<Rightarrow> TxOutput list"
  utxo_is_complete :: "'u \<Rightarrow> bool"
  utxo_serialize_to_network :: "'u \<Rightarrow> error + bytes"
  utxo_str :: "'u \<Rightarrow> error + tx_text"
  tx_from_any :: "tx_text \<Rightarrow> error + 'u"
  xpub_records :: "(bytes \<times> bytes \<times> int list) list \<Rightarrow> error + bytes"

section \<open>Addresses and the segwit test of a partial input\<close>

text \<open>The \<^verbatim>\<open>SIGHASH\<close> enumeration (lines 93--100).\<close>

abbreviation (input) SIGHASH_ALL :: int where "SIGHASH_ALL \<equiv> 1"
abbreviation (input) SIGHASH_NONE :: int where "SIGHASH_NONE \<equiv> 2"
abbreviation (input) SIGHASH_SINGLE :: int where "SIGHASH_SINGLE \<equiv> 3"
abbreviation (input) SIGHASH_ANYONECANPAY :: int where "SIGHASH_ANYONECANPAY \<equiv> 128"

definition SIGHASH_values :: "int list" where
  "SIGHASH_values = [1, 2, 3, 128, 129, 130, 131]"

text \<open>The script templates (lines 550--558).\<close>

definition SCRIPTPUBKEY_TEMPLATE_P2PK :: "template_item list" where
  "SCRIPTPUBKEY_TEMPLATE_P2PK =
     [OPPushDataGeneric (\<lambda>x. x = 33 \<or> x = 65), Opcode OP_CHECKSIG]"

definition SCRIPTPUBKEY_TEMPLATE_P2PKH :: "template_item list" where
  "SCRIPTPUBKEY_TEMPLATE_P2PKH =
     [Opcode OP_DUP, Opcode OP_HASH160, OPPushDataGeneric (\<lambda>x. x = 20),
      Opcode OP_EQUALVERIFY, Opcode OP_CHECKSIG]"

definition SCRIPTPUBKEY_TEMPLATE_P2SH :: "template_item list" where
  "SCRIPTPUBKEY_TEMPLATE_P2SH =
     [Opcode OP_HASH160, OPPushDataGeneric (\<lambda>x. x = 20), Opcode OP_EQUAL]"

definition SCRIPTPUBKEY_TEMPLATE_WITNESS_V0 :: "template_item list" where
  "SCRIPTPUBKEY_TEMPLATE_WITNESS_V0 =
     [Opcode OP_0, OPPushDataGeneric (\<lambda>x. x = 20 \<or> x = 32)]"

text \<open>The template for witness version \<open>witver\<close> from 1 to 16 (lines 733--735).\<close>

definition future_witness_template :: "nat \<Rightarrow> template_item list" where
  "future_witness_template witver =
     [Opcode (OP_1 + witver - 1), OPPushDataGeneric (\<lambda>x. 2 \<le> x \<and> x \<le> 40)]"

text \<open>
  \<^verbatim>\<open>decoded[i][1]\<close>, the payload of the push at position \<open>i\<close>.  It is read only after a
  template has accepted a push opcode at that position, for which the walker always
  yields a payload.
\<close>

definition push_payload :: "script_op list \<Rightarrow> nat \<Rightarrow> bytes" where
  "push_payload decoded i = (case fst (snd (decoded ! i)) of Some vch \<Rightarrow> vch | None \<Rightarrow> [])"

definition get_address_from_output_script :: "'u env \<Rightarrow> bytes \<Rightarrow> string option" where
  "get_address_from_output_script env bs =
     (case script_GetOp bs of
        Inl e \<Rightarrow> None
      | Inr raw_decoded \<Rightarrow>
          (let decoded = before_rvn_asset raw_decoded in
           if match_script_against_template (ScriptDecoded decoded) SCRIPTPUBKEY_TEMPLATE_P2PK
           then Some (hash160_to_p2pkh env (hash_160 env (push_payload decoded 0)))
           else if match_script_against_template (ScriptDecoded decoded) SCRIPTPUBKEY_TEMPLATE_P2PKH
           then Some (hash160_to_p2pkh env (push_payload decoded 2))
           else if match_script_against_template (ScriptDecoded decoded) SCRIPTPUBKEY_TEMPLATE_P2SH
           then Some (hash160_to_p2sh env (push_payload decoded 1))
           else if match_script_against_template (ScriptDecoded decoded)
                     SCRIPTPUBKEY_TEMPLATE_WITNESS_V0
           then hash_to_segwit_addr env (push_payload decoded 1) 0
           else
             (case List.find
                     (\<lambda>witver. match_script_against_template (ScriptDecoded decoded)
                                 (future_witness_template witver)) [1..<17] of
                Some witver \<Rightarrow> hash_to_segwit_addr env (push_payload decoded 1) witver
              | None \<Rightarrow> None)))"

text \<open>The value an output stands for (lines 1702--1705 and 1709--1712).\<close>

definition RavenValue_of_output :: "'a TxOutput_scheme \<Rightarrow> RavenValue" where
  "RavenValue_of_output outpoint =
     (case asset outpoint of
        None \<Rightarrow> \<lparr>rvn_value = value' outpoint, assets = []\<rparr>
      | Some a \<Rightarrow>
          if a \<noteq> [] then \<lparr>rvn_value = IntValue 0, assets = [(a, value' outpoint)]\<rparr>
          else \<lparr>rvn_value = value' outpoint, assets = []\<rparr>)"

definition value_sats :: "'u env \<Rightarrow> 'u PartialTxInput \<Rightarrow> error + RavenValue option" where
  "value_sats env self =
     (case trusted_value_sats self of
        Some v \<Rightarrow> Inr (Some v)
      | None \<Rightarrow>
          (case utxo self of
             Some u \<Rightarrow>
               bind_result (py_index (utxo_outputs env u) (out_idx (prevout self)))
                 (\<lambda>outpoint. Inr (Some (RavenValue_of_output outpoint)))
           | None \<Rightarrow>
               (case witness_utxo self of
                  Some outpoint \<Rightarrow> Inr (Some (RavenValue_of_output outpoint))
                | None \<Rightarrow> Inr None)))"

text \<open>The property \<^verbatim>\<open>PartialTxInput.scriptpubkey\<close> (lines 1725--1739).\<close>

definition txin_scriptpubkey :: "'u env \<Rightarrow> 'u PartialTxInput \<Rightarrow> error + bytes option" where
  "txin_scriptpubkey env self =
     (case trusted_address self of
        Some a \<Rightarrow>
          bind_result (value_sats env self)
            (\<lambda>v. case v of
                   None \<Rightarrow> Inl AttributeError
                 | Some rv \<Rightarrow>
                     bind_result (address_to_script env a) (\<lambda>script. Inr (Some script)))
      | None \<Rightarrow>
          (case utxo self of
             Some u \<Rightarrow>
               bind_result (py_index (utxo_outputs env u) (out_idx (prevout self)))
                 (\<lambda>outpoint. Inr (Some (scriptpubkey outpoint)))
           | None \<Rightarrow>
               (case witness_utxo self of
                  Some outpoint \<Rightarrow> Inr (Some (scriptpubkey outpoint))
                | None \<Rightarrow> Inr None)))"

text \<open>The property \<^verbatim>\<open>PartialTxInput.address\<close> (lines 1716--1723).\<close>

definition txin_address :: "'u env \<Rightarrow> 'u PartialTxInput \<Rightarrow> error + string option" where
  "txin_address env self =
     (case trusted_address self of
        Some a \<Rightarrow> Inr (Some a)
      | None \<Rightarrow>
          bind_result (txin_scriptpubkey env self)
            (\<lambda>spk. case spk of
                     None \<Rightarrow> Inr None
                   | Some s \<Rightarrow>
                       if s \<noteq> [] then Inr (get_address_from_output_script env s)
                       else Inr None))"

definition is_native_segwit :: "'u env \<Rightarrow> 'u PartialTxInput \<Rightarrow> error + bool option" where
  "is_native_segwit env self =
     (case is_native_segwit_cache self of
        Some b \<Rightarrow> Inr (Some b)
      | None \<Rightarrow>
          bind_result (txin_address env self)
            (\<lambda>a. if truthy a then Inr (map_option (is_segwit_address env) a) else Inr None))"

definition calc_if_p2sh_segwit_now :: "'u env \<Rightarrow> 'u PartialTxInput \<Rightarrow> error + bool option" where
  "calc_if_p2sh_segwit_now env self =
     bind_result (txin_address env self)
       (\<lambda>a. case redeem_script self of
               None \<Rightarrow> Inr None
             | Some rs \<Rightarrow>
                 if \<not> (truthy a \<and> rs \<noteq> []) then Inr None
                 else if a \<noteq> Some (hash160_to_p2sh env (hash_160 env rs)) then Inr (Some False)
                 else
                   (let decoded = (case script_GetOp rs of
                                     Inl e \<Rightarrow> ScriptNone
                                   | Inr d \<Rightarrow> ScriptDecoded d)
                    in if match_script_against_template decoded SCRIPTPUBKEY_TEMPLATE_WITNESS_V0
                       then Inr (Some True)
                       else if list_ex (\<lambda>witver. match_script_against_template decoded
                                                   (future_witness_template witver)) [1..<17]
                       then Inr (Some True)
                       else Inr (Some False)))"

definition is_p2sh_segwit :: "'u env \<Rightarrow> 'u PartialTxInput \<Rightarrow> error + bool option" where
  "is_p2sh_segwit env self =
     (case is_p2sh_segwit_cache self of
        Some b \<Rightarrow> Inr (Some b)
      | None \<Rightarrow> calc_if_p2sh_segwit_now env self)"

text \<open>
  \<^verbatim>\<open>PartialTxInput.is_segwit\<close> (lines 1864--1876) as it is called everywhere outside size
  estimation, that is with \<^verbatim>\<open>guess_for_address=False\<close>.
\<close>

definition PartialTxInput_is_segwit :: "'u env \<Rightarrow> 'u PartialTxInput \<Rightarrow> error + bool" where
  "PartialTxInput_is_segwit env self =
     (if TxInput_is_segwit self then Inr True
      else
        bind_result (is_native_segwit env self)
          (\<lambda>native.
             if native = Some True then Inr True
             else
               bind_result (is_p2sh_segwit env self)
                 (\<lambda>p2sh.
                    if p2sh = Some True then Inr True
                    else if native = Some False \<and> p2sh = Some False then Inr False
                    else if truthy (witness_script self) then Inr True
                    else Inr (is_segwit_script_type env (script_type self)))))"

section \<open>The signature pre-image\<close>

definition multisig_script :: "'u env \<Rightarrow> bytes list \<Rightarrow> int \<Rightarrow> error + bytes" where
  "multisig_script env public_keys m =
     (let n = int (length public_keys) in
      if \<not> (1 \<le> m \<and> m \<le> n \<and> n \<le> 15) then Inl AssertionError
      else Inr (construct_script env
                  ([ItemInt m] @ map ItemData public_keys @ [ItemInt n, ItemOpcode OP_CHECKMULTISIG])))"

text \<open>\<^verbatim>\<open>opcodes.OP_CODESEPARATOR in [x[0] for x in script_GetOp(script)]\<close>.\<close>

definition has_codeseparator :: "bytes \<Rightarrow> error + bool" where
  "has_codeseparator script =
     bind_result (script_GetOp script) (\<lambda>ops. Inr (OP_CODESEPARATOR \<in> set (map fst ops)))"

text \<open>\<^verbatim>\<open>d.get(key, default)\<close> on a dictionary.\<close>

definition dict_get :: "('k \<times> 'v) list \<Rightarrow> 'k \<Rightarrow> 'v \<Rightarrow> 'v" where
  "dict_get d k dflt = (case map_of d k of Some v \<Rightarrow> v | None \<Rightarrow> dflt)"

text \<open>The standard locking script for the script type (lines 1072--1083).\<close>

definition standard_preimage_script :: "'u env \<Rightarrow> 'u PartialTxInput \<Rightarrow> error + bytes" where
  "standard_preimage_script env txin =
     (if script_type txin \<in> {''p2sh'', ''p2wsh'', ''p2wsh-p2sh''} then
        multisig_script env (pubkeys txin) (num_sig txin)
      else if script_type txin \<in> {''p2pkh'', ''p2wpkh'', ''p2wpkh-p2sh''} then
        bind_result (py_index (pubkeys txin) 0)
          (\<lambda>pubkey. Inr (pubkeyhash_to_p2pkh_script env (hash_160 env pubkey)))
      else if script_type txin = ''p2pk'' then
        bind_result (py_index (pubkeys txin) 0)
          (\<lambda>pubkey. Inr (public_key_to_p2pk_script env pubkey))
      else Inl UnknownTxinType)"

definition get_preimage_script ::
  "'u env \<Rightarrow> 'u PartialTxInput \<Rightarrow> Abstract_Wallet option \<Rightarrow> (TxOutpoint \<times> bytes) list
     \<Rightarrow> error + bytes" where
  "get_preimage_script env txin wallet txin_locking_script_overrides =
     (if truthy (witness_script txin) then
        bind_result (has_codeseparator (case witness_script txin of Some ws \<Rightarrow> ws | None \<Rightarrow> []))
          (\<lambda>sep. if sep then Inl PyException else Inl NotImplementedError)
      else
        bind_result (PartialTxInput_is_segwit env txin)
          (\<lambda>segwit.
             if \<not> segwit \<and> truthy (redeem_script txin) then
               (let rs = (case redeem_script txin of Some rs \<Rightarrow> rs | None \<Rightarrow> []) in
                bind_result (has_codeseparator rs)
                  (\<lambda>sep. if sep then Inl PyException else Inr rs))
             else
               bind_result (standard_preimage_script env txin)
                 (\<lambda>script.
                    bind_result (value_sats env txin)
                      (\<lambda>v. case v of
                             None \<Rightarrow> Inl AttributeError
                           | Some rv \<Rightarrow>
                               bind_result
                                 (case assets rv of
                                    [] \<Rightarrow> Inr script
                                  | (asset_name, amt) # _ \<Rightarrow>
                                      guess_asset_script_for_vin env script asset_name amt txin
                                        wallet)
                                 (\<lambda>script1.
                                    let script2 =
                                          (case wallet of
                                             None \<Rightarrow> script1
                                           | Some w \<Rightarrow>
                                               dict_get (nonstandard_outpoints w) (prevout txin)
                                                 script1)
                                    in Inr (dict_get txin_locking_script_overrides
                                              (prevout txin) script2))))))"

definition serialize_input :: "'a TxInput_scheme \<Rightarrow> bytes \<Rightarrow> error + bytes" where
  "serialize_input txin script =
     bind_result (TxOutpoint_serialize_to_network (prevout txin))
       (\<lambda>s. bind_result (int_to_hex (nsequence txin) 4)
              (\<lambda>seq. Inr (s @ var_int (length script) @ script @ seq)))"

text \<open>The constructor of \<^verbatim>\<open>PartialTxInput\<close> (lines 1486--1506) and \<^verbatim>\<open>from_txin\<close>.\<close>

definition PartialTxInput_init ::
  "TxOutpoint \<Rightarrow> bytes option \<Rightarrow> int \<Rightarrow> bytes option \<Rightarrow> bool \<Rightarrow> int option \<Rightarrow> 'u PartialTxInput" where
  "PartialTxInput_init po ss nseq wit cb sh =
     \<lparr>prevout = po, script_sig = ss, nsequence = nseq, witness = wit,
      is_coinbase_output' = cb, sighash = sh,
      utxo = None, witness_utxo = None, part_sigs = [], bip32_paths = [],
      redeem_script = None, witness_script = None, unknown = [],
      script_type = ''unknown'', num_sig = 0, pubkeys = [],
      trusted_value_sats = None, trusted_address = None,
      block_height = None, spent_height = None, spent_txid = None,
      is_p2sh_segwit_cache = None, is_native_segwit_cache = None, witness_sizehint = None\<rparr>"

definition from_txin :: "'a TxInput_scheme \<Rightarrow> bool \<Rightarrow> 'u PartialTxInput" where
  "from_txin txin strip_witness =
     PartialTxInput_init (prevout txin)
       (if strip_witness then None else script_sig txin)
       (nsequence txin)
       (if strip_witness then None else witness txin)
       (is_coinbase_output' txin) (sighash txin)"

definition PartialTxOutput_init :: "bytes \<Rightarrow> tx_value \<Rightarrow> string option \<Rightarrow> PartialTxOutput" where
  "PartialTxOutput_init spk v a =
     \<lparr>scriptpubkey = spk, value' = v, asset = a,
      txout_redeem_script = None, txout_witness_script = None, txout_bip32_paths = [],
      txout_unknown = [], txout_script_type = ''unknown'', txout_num_sig = 0,
      txout_pubkeys = [], is_mine = False, is_change = False\<rparr>"

definition from_txout :: "'a TxOutput_scheme \<Rightarrow> PartialTxOutput" where
  "from_txout txout = PartialTxOutput_init (scriptpubkey txout) (value' txout) (asset txout)"

text \<open>
  Modelled from the spec: the class \<^verbatim>\<open>Satoshis\<close> (module \<^verbatim>\<open>util\<close>) is not among the sources.
  Line 2331 assigns \<^verbatim>\<open>Satoshis((1 << 64) - 1)\<close> to the value of a blanked output; following
  section 4.7 of the specification the blanked output carries the integer \<open>2\<^sup>6\<^sup>4 - 1\<close>.
\<close>

definition blanked_output :: "'a TxOutput_scheme \<Rightarrow> PartialTxOutput" where
  "blanked_output txout =
     (from_txout txout)\<lparr>scriptpubkey := [], value' := IntValue (2 ^ 64 - 1), asset := None\<rparr>"

text \<open>The loop over the inputs of the legacy pre-image (lines 2314--2319), from index \<open>k\<close>.\<close>

fun preimage_txins ::
  "int \<Rightarrow> nat \<Rightarrow> bytes \<Rightarrow> nat \<Rightarrow> 'u PartialTxInput list \<Rightarrow> error + bytes" where
  "preimage_txins hashtype txin_index preimage_script k [] = Inr []"
| "preimage_txins hashtype txin_index preimage_script k (txin # rest) =
     (let txin1 = (if (hashtype = SIGHASH_NONE \<or> hashtype = SIGHASH_SINGLE) \<and> txin_index \<noteq> k
                   then (from_txin txin True)\<lparr>nsequence := 0\<rparr> else txin)
      in bind_result (serialize_input txin1 (if txin_index = k then preimage_script else []))
           (\<lambda>s_in. bind_result (preimage_txins hashtype txin_index preimage_script (k + 1) rest)
                     (\<lambda>s_rest. Inr (s_in @ s_rest))))"

text \<open>
  The loop over the outputs for \<^verbatim>\<open>SIGHASH.SINGLE\<close> (lines 2327--2337), from index \<open>k\<close>:
  blanked outputs before \<open>txin_index\<close>, the output at \<open>txin_index\<close>, then \<^verbatim>\<open>break\<close>.
\<close>

fun preimage_single_txouts :: "nat \<Rightarrow> nat \<Rightarrow> PartialTxOutput list \<Rightarrow> error + bytes" where
  "preimage_single_txouts txin_index k [] = Inr []"
| "preimage_single_txouts txin_index k (txout # rest) =
     (if k < txin_index then
        bind_result (TxOutput_serialize_to_network (blanked_output txout))
          (\<lambda>s. bind_result (preimage_single_txouts txin_index (k + 1) rest)
                 (\<lambda>s_rest. Inr (s @ s_rest)))
      else if k = txin_index then
        bind_result (TxOutput_serialize_to_network txout)
          (\<lambda>s. bind_result (preimage_single_txouts txin_index (k + 1) rest)
                 (\<lambda>s_rest. Inr (s @ s_rest)))
      else Inr [])"

text \<open>The output part of the legacy pre-image (lines 2321--2339).\<close>

definition preimage_txouts :: "int \<Rightarrow> nat \<Rightarrow> PartialTxOutput list \<Rightarrow> error + bytes" where
  "preimage_txouts hashtype txin_index outs =
     (if hashtype = SIGHASH_NONE then Inr (var_int 0)
      else if hashtype = SIGHASH_SINGLE then
        (if txin_index > length outs then Inl PyException
         else bind_result (preimage_single_txouts txin_index 0 outs)
                (\<lambda>s. Inr (var_int txin_index @ s)))
      else bind_result (join_results TxOutput_serialize_to_network outs)
             (\<lambda>s. Inr (var_int (length outs) @ s)))"

text \<open>
  \<^verbatim>\<open>PartialTransaction.serialize_preimage\<close> (lines 2270--2342).  The statements of the
  segwit branch that follow \<^verbatim>\<open>raise NotImplementedError()\<close> at line 2284 are never
  executed.
\<close>

definition serialize_preimage :: "'u env \<Rightarrow> 'u PartialTransaction \<Rightarrow> nat \<Rightarrow> error + bytes" where
  "serialize_preimage env self txin_index =
     bind_result (int_to_hex (version self) 4) (\<lambda>nVersion.
     bind_result (int_to_hex (locktime self) 4) (\<lambda>nLocktime.
     if length (inputs self) \<le> txin_index then Inl IndexError
     else
       (let txin = inputs self ! txin_index;
            hashtype = (case sighash txin of Some s \<Rightarrow> s | None \<Rightarrow> SIGHASH_ALL)
        in if hashtype \<notin> set SIGHASH_values then Inl PyException
           else
             bind_result (int_to_hex hashtype 4) (\<lambda>nHashType.
             bind_result (get_preimage_script env txin (tx_wallet self) (prevout_overrides self))
               (\<lambda>preimage_script.
             bind_result (PartialTxInput_is_segwit env txin) (\<lambda>segwit.
             if segwit then Inl NotImplementedError
             else
               bind_result
                 (if and hashtype SIGHASH_ANYONECANPAY \<noteq> 0 then
                    bind_result (serialize_input txin preimage_script)
                      (\<lambda>s. if and hashtype SIGHASH_SINGLE = 0 then Inl NotImplementedError
                            else Inr (var_int 1 @ s))
                  else
                    bind_result
                      (preimage_txins hashtype txin_index preimage_script 0 (inputs self))
                      (\<lambda>s. Inr (var_int (length (inputs self)) @ s)))
                 (\<lambda>txins.
               bind_result (preimage_txouts hashtype txin_index (outputs self)) (\<lambda>txouts.
               Inr (nVersion @ txins @ txouts @ nLocktime @ nHashType)))))))))"

section \<open>Completion, script-sig and witness of an input\<close>

text \<open>\<^verbatim>\<open>PartialTxInput.is_complete\<close> (lines 1757--1775).\<close>

definition PartialTxInput_is_complete :: "'u env \<Rightarrow> 'u PartialTxInput \<Rightarrow> error + bool" where
  "PartialTxInput_is_complete env self =
     (if script_sig self \<noteq> None \<and> witness self \<noteq> None then Inr True
      else if is_coinbase_input self then Inr True
      else
        bind_result (if script_sig self \<noteq> None
                     then bind_result (PartialTxInput_is_segwit env self) (\<lambda>b. Inr (\<not> b))
                     else Inr False)
          (\<lambda>done. if done then Inr True
             else
               (let s = int (length (part_sigs self)) in
                if script_type self \<in> {''p2pk'', ''p2pkh'', ''p2wpkh'', ''p2wpkh-p2sh''}
                then Inr (s \<ge> 1)
                else if script_type self \<in> {''p2sh'', ''p2wsh'', ''p2wsh-p2sh''}
                then Inr (s \<ge> num_sig self)
                else Inr False)))"

text \<open>\<^verbatim>\<open>Transaction.get_siglist\<close> (lines 939--963) without size estimation.\<close>

definition get_siglist :: "'u env \<Rightarrow> 'u PartialTxInput \<Rightarrow> error + (bytes list \<times> bytes list)" where
  "get_siglist env txin =
     (if is_coinbase_input txin then Inr ([], [])
      else
        (let pk_list = pubkeys txin;
             sig_list = map (\<lambda>pubkey. dict_get (part_sigs txin) pubkey []) (pubkeys txin)
         in bind_result (PartialTxInput_is_complete env txin)
              (\<lambda>complete.
                 Inr (pk_list, if complete then filter (\<lambda>sig. sig \<noteq> []) sig_list else sig_list))))"

text \<open>
  \<^verbatim>\<open>Transaction.input_script\<close> (lines 1015--1058) without size estimation, for a plain
  input and for a partial one.
\<close>

definition TxInput_input_script :: "TxInput \<Rightarrow> error + bytes" where
  "TxInput_input_script txin =
     (case script_sig txin of
        Some s \<Rightarrow> Inr s
      | None \<Rightarrow> if is_coinbase_input txin then Inr [] else Inl AssertionError)"

definition input_script :: "'u env \<Rightarrow> 'u PartialTxInput \<Rightarrow> error + bytes" where
  "input_script env txin =
     (case script_sig txin of
        Some s \<Rightarrow> Inr s
      | None \<Rightarrow>
          if is_coinbase_input txin then Inr []
          else
            bind_result (is_p2sh_segwit env txin) (\<lambda>p2sh.
            if p2sh = Some True \<and> truthy (redeem_script txin) then
              Inr (construct_script env
                     [ItemData (case redeem_script txin of Some rs \<Rightarrow> rs | None \<Rightarrow> [])])
            else
              bind_result (is_native_segwit env txin) (\<lambda>native.
              if native = Some True then Inr []
              else
                bind_result (get_siglist env txin) (\<lambda>(pubkeys1, sig_list).
                if script_type txin = ''p2pk'' then
                  bind_result (py_index sig_list 0)
                    (\<lambda>sig0. Inr (construct_script env [ItemData sig0]))
                else if script_type txin = ''p2sh'' then
                  bind_result (multisig_script env pubkeys1 (num_sig txin))
                    (\<lambda>rs. Inr (construct_script env
                                 ([ItemInt 0] @ map ItemData sig_list @ [ItemData rs])))
                else if script_type txin = ''p2pkh'' then
                  bind_result (py_index sig_list 0) (\<lambda>sig0.
                  bind_result (py_index pubkeys1 0) (\<lambda>pk0.
                  Inr (construct_script env [ItemData sig0, ItemData pk0])))
                else if script_type txin \<in> {''p2wpkh'', ''p2wsh''} then Inr []
                else if script_type txin = ''p2wpkh-p2sh'' then Inl NotImplementedError
                else if script_type txin = ''p2wsh-p2sh'' then Inl NotImplementedError
                else Inl UnknownTxinType))))"

text \<open>\<^verbatim>\<open>Transaction.serialize_witness\<close> (lines 966--989) without size estimation.\<close>

definition TxInput_serialize_witness :: "TxInput \<Rightarrow> error + bytes" where
  "TxInput_serialize_witness txin =
     (case witness txin of
        Some w \<Rightarrow> Inr w
      | None \<Rightarrow> if is_coinbase_input txin then Inr [] else Inl AssertionError)"

definition serialize_witness :: "'u env \<Rightarrow> 'u PartialTxInput \<Rightarrow> error + bytes" where
  "serialize_witness env txin =
     (case witness txin of
        Some w \<Rightarrow> Inr w
      | None \<Rightarrow>
          if is_coinbase_input txin then Inr []
          else
            bind_result (PartialTxInput_is_segwit env txin) (\<lambda>segwit.
            if \<not> segwit then Inr (construct_witness env [])
            else
              bind_result (get_siglist env txin) (\<lambda>(pubkeys1, sig_list).
              if script_type txin \<in> {''p2wpkh'', ''p2wpkh-p2sh''} then
                bind_result (py_index sig_list 0) (\<lambda>sig0.
                bind_result (py_index pubkeys1 0) (\<lambda>pk0.
                Inr (construct_witness env [ItemData sig0, ItemData pk0])))
              else if script_type txin \<in> {''p2wsh'', ''p2wsh-p2sh''} then
                bind_result (multisig_script env pubkeys1 (num_sig txin))
                  (\<lambda>ws. Inr (construct_witness env
                               ([ItemInt 0] @ map ItemData sig_list @ [ItemData ws])))
              else if script_type txin \<in> {''p2pk'', ''p2pkh'', ''p2sh''} then
                Inr (construct_witness env [])
              else Inl UnknownTxinType)))"



section \<open>Network serialization and the transaction id\<close>

text \<open>\<^verbatim>\<open>any(f(x) for x in xs)\<close> and \<^verbatim>\<open>all(...)\<close> where \<open>f\<close> may raise; both stop early.\<close>

fun any_result :: "('a \<Rightarrow> error + bool) \<Rightarrow> 'a list \<Rightarrow> error + bool" where
  "any_result f [] = Inr False"
| "any_result f (x # xs) = bind_result (f x) (\<lambda>b. if b then Inr True else any_result f xs)"

fun all_result :: "('a \<Rightarrow> error + bool) \<Rightarrow> 'a list \<Rightarrow> error + bool" where
  "all_result f [] = Inr True"
| "all_result f (x # xs) = bind_result (f x) (\<lambda>b. if b then all_result f xs else Inr False)"

text \<open>
  \<^verbatim>\<open>Transaction.serialize_to_network\<close> (lines 1133--1162) with \<^verbatim>\<open>estimate_size=False\<close>.  The
  methods that depend on the class of the inputs are arguments: \<open>script_of\<close> is
  \<^verbatim>\<open>input_script\<close>, \<open>segwit_of\<close> is \<^verbatim>\<open>txin.is_segwit()\<close>, \<open>witness_of\<close> is \<^verbatim>\<open>serialize_witness\<close>.
\<close>

definition serialize_to_network_with ::
  "('a TxInput_scheme \<Rightarrow> error + bytes) \<Rightarrow> ('a TxInput_scheme \<Rightarrow> error + bool)
     \<Rightarrow> ('a TxInput_scheme \<Rightarrow> error + bytes)
     \<Rightarrow> ('a TxInput_scheme, 'b TxOutput_scheme, 'c) Transaction_scheme
     \<Rightarrow> bool \<Rightarrow> bool \<Rightarrow> error + bytes" where
  "serialize_to_network_with script_of segwit_of witness_of self include_sigs force_legacy =
     bind_result (int_to_hex (version self) 4) (\<lambda>nVersion.
     bind_result (int_to_hex (locktime self) 4) (\<lambda>nLocktime.
     bind_result
       (join_results
          (\<lambda>txin. bind_result (if include_sigs then script_of txin else Inr [])
                    (\<lambda>script. serialize_input txin script))
          (inputs self)) (\<lambda>s_ins.
     bind_result (join_results TxOutput_serialize_to_network (outputs self)) (\<lambda>s_outs.
     bind_result (any_result segwit_of (inputs self)) (\<lambda>use_segwit_ser.
     let txins = var_int (length (inputs self)) @ s_ins;
         txouts = var_int (length (outputs self)) @ s_outs
     in if include_sigs \<and> \<not> force_legacy \<and> use_segwit_ser then
          bind_result (join_results witness_of (inputs self))
            (\<lambda>wit. Inr (nVersion @ [0] @ [1] @ txins @ txouts @ wit @ nLocktime))
        else Inr (nVersion @ txins @ txouts @ nLocktime))))))"

definition Transaction_serialize_to_network ::
  "(TxInput, 'b TxOutput_scheme) Transaction \<Rightarrow> bool \<Rightarrow> bool \<Rightarrow> error + bytes" where
  "Transaction_serialize_to_network =
     serialize_to_network_with TxInput_input_script (\<lambda>txin. Inr (TxInput_is_segwit txin))
       TxInput_serialize_witness"

definition serialize_to_network ::
  "'u env \<Rightarrow> 'u PartialTransaction \<Rightarrow> bool \<Rightarrow> bool \<Rightarrow> error + bytes" where
  "serialize_to_network env =
     serialize_to_network_with (input_script env) (PartialTxInput_is_segwit env)
       (serialize_witness env)"

text \<open>\<^verbatim>\<open>PartialTransaction.is_complete\<close> (line 2375) evaluates every input.\<close>

definition is_complete :: "'u env \<Rightarrow> 'u PartialTransaction \<Rightarrow> error + bool" where
  "is_complete env self =
     bind_result (map_results (PartialTxInput_is_complete env) (inputs self))
       (\<lambda>flags. Inr (list_all (\<lambda>b. b) flags))"

text \<open>
  \<^verbatim>\<open>Transaction.txid\<close> (lines 1173--1185); it returns the identifier, or \<^verbatim>\<open>None\<close>, and
  stores it in the cache.  \<open>segwit_of\<close>, \<open>complete\<close> and \<open>legacy_ser\<close> are the methods
  \<^verbatim>\<open>txin.is_segwit()\<close>, \<^verbatim>\<open>self.is_complete()\<close> and
  \<^verbatim>\<open>self.serialize_to_network(force_legacy=True)\<close> of the class.
\<close>

definition txid_with ::
  "(bytes \<Rightarrow> bytes) \<Rightarrow> ('i \<Rightarrow> error + bool)
     \<Rightarrow> (('i, 'o, 'c) Transaction_scheme \<Rightarrow> error + bool)
     \<Rightarrow> (('i, 'o, 'c) Transaction_scheme \<Rightarrow> error + bytes)
     \<Rightarrow> ('i, 'o, 'c) Transaction_scheme
     \<Rightarrow> error + (bytes option \<times> ('i, 'o, 'c) Transaction_scheme)" where
  "txid_with hash segwit_of complete legacy_ser self =
     (case cached_txid self of
        Some t \<Rightarrow> Inr (Some t, self)
      | None \<Rightarrow>
          bind_result (all_result segwit_of (inputs self)) (\<lambda>all_segwit.
          bind_result (if \<not> all_segwit then bind_result (complete self) (\<lambda>c. Inr (\<not> c))
                       else Inr False) (\<lambda>give_up.
          if give_up then Inr (None, self)
          else
            (case legacy_ser self of
               Inl e \<Rightarrow> if e = UnknownTxinType then Inr (None, self) else Inl e
             | Inr ser \<Rightarrow>
                 Inr (Some (rev (hash ser)), self\<lparr>cached_txid := Some (rev (hash ser))\<rparr>)))))"

definition Transaction_txid ::
  "(bytes \<Rightarrow> bytes) \<Rightarrow> (TxInput, 'b TxOutput_scheme) Transaction
     \<Rightarrow> error + (bytes option \<times> (TxInput, 'b TxOutput_scheme) Transaction)" where
  "Transaction_txid hash =
     txid_with hash (\<lambda>txin. Inr (TxInput_is_segwit txin)) (\<lambda>self. Inr True)
       (\<lambda>self. Transaction_serialize_to_network self True True)"

definition PartialTransaction_txid ::
  "'u env \<Rightarrow> 'u PartialTransaction \<Rightarrow> error + (bytes option \<times> 'u PartialTransaction)" where
  "PartialTransaction_txid env =
     txid_with (sha256d env) (PartialTxInput_is_segwit env) (is_complete env)
       (\<lambda>self. serialize_to_network env self True True)"

section \<open>Consistency checks and the UTXO setters of a partial input\<close>





section \<open>PSBT sections\<close>


















section \<open>Combining\<close>


















section \<open>BIP-69 ordering and the asset overlay\<close>















section \<open>A concrete environment and concrete transactions\<close>

text \<open>
  Stand-ins for the imported functions, used only to evaluate the model on concrete
  transactions: hashes that depend on the length of their argument, an address that
  spells the kind of script (and \<open>''burn''\<close> for the hash of zeros), script builders that
  concatenate their items.  An object kept as previous transaction is a plain
  transaction, or a PSBT that is not complete, known by its bytes.  The parser recognizes
  the network serialization of the transactions of a table and every base64 PSBT.
\<close>

type_synonym plain_tx = "(TxInput, TxOutput) Transaction"

datatype example_prev = PrevTx plain_tx | PrevPSBT bytes

fun example_item_bytes :: "script_item \<Rightarrow> bytes" where
  "example_item_bytes (ItemOpcode n) = [of_nat n]"
| "example_item_bytes (ItemInt i) = [of_nat (nat i)]"
| "example_item_bytes (ItemData d) = of_nat (length d) # d"

definition example_sha256d :: "bytes \<Rightarrow> bytes" where
  "example_sha256d b = replicate 32 (of_nat (length b))"

text \<open>A funding transaction: one input with its script-sig, two outputs.\<close>

definition example_prev_tx :: plain_tx where
  "example_prev_tx =
     \<lparr>version = 2, locktime = 0,
      inputs = [\<lparr>prevout = \<lparr>txid = replicate 32 9, out_idx = 0\<rparr>, script_sig = Some [1, 7],
                 nsequence = 4294967294, witness = None, is_coinbase_output' = False,
                 sighash = None\<rparr>],
      outputs = [\<lparr>scriptpubkey = [118], value' = IntValue 1000, asset = None\<rparr>,
                 \<lparr>scriptpubkey = [169], value' = IntValue 2000, asset = None\<rparr>],
      for_swap = False, cached_network_ser = None, cached_txid = None\<rparr>"

definition example_env :: "example_prev env" where
  "example_env =
     \<lparr>sha256d = example_sha256d,
      hash_160 = (\<lambda>b. replicate 20 (of_nat (length b))),
      hash160_to_p2pkh = (\<lambda>h. if list_all (\<lambda>b. b = 0) h then ''burn'' else ''p2pkh''),
      hash160_to_p2sh = (\<lambda>h. ''p2sh''),
      hash_to_segwit_addr = (\<lambda>h witver. Some ''segwit''),
      is_segwit_address = (\<lambda>a. a = ''segwit''),
      is_segwit_script_type =
        (\<lambda>t. t \<in> {''p2wpkh'', ''p2wpkh-p2sh'', ''p2wsh'', ''p2wsh-p2sh''}),
      address_to_script = (\<lambda>a. Inr []),
      construct_script = (\<lambda>items. concat (map example_item_bytes items)),
      construct_witness =
        (\<lambda>items. of_nat (length items) # concat (map example_item_bytes items)),
      pubkeyhash_to_p2pkh_script = (\<lambda>h. [118, 169, 20] @ h @ [136, 172]),
      public_key_to_p2pk_script = (\<lambda>pk. of_nat (length pk) # pk @ [172]),
      p2wsh_nested_script = (\<lambda>s. 0 # 32 # replicate 32 (of_nat (length s))),
      script_to_p2wsh = (\<lambda>s. ''segwit''),
      guess_asset_script_for_vin = (\<lambda>script a amt txin w. Inr script),
      BURN_ADDRESSES = [''burn''],
      utxo_txid =
        (\<lambda>u. case u of
               PrevTx t \<Rightarrow> (case Transaction_txid example_sha256d t of
                              Inl e \<Rightarrow> Inl e | Inr (r, t1) \<Rightarrow> Inr r)
             | PrevPSBT b \<Rightarrow> Inr None),
      utxo_outputs = (\<lambda>u. case u of PrevTx t \<Rightarrow> outputs t | PrevPSBT b \<Rightarrow> []),
      utxo_is_complete = (\<lambda>u. case u of PrevTx t \<Rightarrow> True | PrevPSBT b \<Rightarrow> False),
      utxo_serialize_to_network =
        (\<lambda>u. case u of
               PrevTx t \<Rightarrow> Transaction_serialize_to_network t True False
             | PrevPSBT b \<Rightarrow> Inr b),
      utxo_str =
        (\<lambda>u. case u of
               PrevTx t \<Rightarrow> (case Transaction_serialize_to_network t True False of
                              Inl e \<Rightarrow> Inl e | Inr ser \<Rightarrow> Inr (HexText ser))
             | PrevPSBT b \<Rightarrow> Inr (Base64Text b)),
      tx_from_any =
        (\<lambda>text. case text of
                  HexText ser \<Rightarrow>
                    if Transaction_serialize_to_network example_prev_tx True False = Inr ser
                    then Inr (PrevTx example_prev_tx) else Inl SerializationError
                | Base64Text b \<Rightarrow> Inr (PrevPSBT b)),
      xpub_records = (\<lambda>d. Inr [])\<rparr>"

text \<open>An input as the constructor leaves it, spending output \<open>n\<close> of transaction \<open>h\<close>.\<close>

definition example_input :: "bytes \<Rightarrow> int \<Rightarrow> example_prev PartialTxInput" where
  "example_input h n = PartialTxInput_init \<lparr>txid = h, out_idx = n\<rparr> None 4294967294 None False None"

definition example_tx ::
  "example_prev PartialTxInput list \<Rightarrow> PartialTxOutput list \<Rightarrow> example_prev PartialTransaction" where
  "example_tx ins outs =
     \<lparr>version = 2, locktime = 0, inputs = ins, outputs = outs, for_swap = False,
      cached_network_ser = None, cached_txid = None,
      xpubs = [], global_unknown = [], prevout_overrides = [], tx_wallet = None\<rparr>"


definition p2wpkh_in :: "bytes \<Rightarrow> int \<Rightarrow> example_prev PartialTxInput" where
  "p2wpkh_in h n =
     (example_input h n)\<lparr>script_type := ''p2wpkh'', pubkeys := [replicate 33 2],
        trusted_value_sats := Some \<lparr>rvn_value = IntValue 1000, assets = []\<rparr>\<rparr>"









text \<open>
  An input finalized with a witness only and no information on the coin it spends, an
  input finalized with a script-sig only, and an output.
\<close>

definition final_witness_in :: "example_prev PartialTxInput" where
  "final_witness_in = (example_input (17 # replicate 31 0) 0)\<lparr>witness := Some [1, 1, 7]\<rparr>"

definition final_scriptsig_in :: "example_prev PartialTxInput" where
  "final_scriptsig_in = (example_input (17 # replicate 31 0) 0)\<lparr>script_sig := Some [1, 7]\<rparr>"

definition pay_out :: PartialTxOutput where
  "pay_out = PartialTxOutput_init [118] (IntValue 5) None"








section \<open>Properties of the script walker and the matcher\<close>

text \<open>
  C3 (what the code does at a truncated push).  The script \<^verbatim>\<open>05 01\<close> announces a direct
  push of five bytes and holds one; \<^verbatim>\<open>4c 05 01\<close> does the same through \<^verbatim>\<open>OP_PUSHDATA1\<close>.
  The walker yields the shortened payload with a cursor past the end of the script and
  raises nothing.
\<close>

theorem script_GetOp_truncated_payload_not_raised:
  "script_GetOp [5, 1] = Inr [(5, Some [1], 6)]
   \<and> script_GetOp [76, 5, 1] = Inr [(OP_PUSHDATA1, Some [1], 7)]"
  by (simp add: script_GetOp_def script_GetOp_from.simps push_size_def)

lemma find_op_rvn_asset_takeWhile:
  "i \<le> length script \<Longrightarrow>
   find_op_rvn_asset script i =
     i + length (takeWhile (\<lambda>script_item. fst script_item \<noteq> OP_RVN_ASSET) (drop i script))"
proof (induction script i rule: find_op_rvn_asset.induct)
  case (1 script i)
  show ?case
  proof (cases "i < length script")
    case True
    then have d: "drop i script = script ! i # drop (i + 1) script"
      by (simp add: Cons_nth_drop_Suc)
    show ?thesis
    proof (cases "fst (script ! i) = OP_RVN_ASSET")
      case True
      with \<open>i < length script\<close> d show ?thesis
        by (simp add: find_op_rvn_asset.simps [of script i])
    next
      case False
      with \<open>i < length script\<close> d "1.IH" show ?thesis
        by (simp add: find_op_rvn_asset.simps [of script i])
    qed
  next
    case False
    with "1.prems" show ?thesis
      by (subst find_op_rvn_asset.simps) simp
  qed
qed

lemma take_find_op_rvn_asset:
  "take (find_op_rvn_asset decoded 0) decoded = before_rvn_asset decoded"
proof -
  have "find_op_rvn_asset decoded 0 =
      length (takeWhile (\<lambda>script_item. fst script_item \<noteq> OP_RVN_ASSET) decoded)"
    using find_op_rvn_asset_takeWhile [of 0 decoded] by simp
  then show ?thesis
    by (simp add: before_rvn_asset_def takeWhile_eq_take [symmetric])
qed

lemma item_accepts_iff:
  "item_accepts t op \<longleftrightarrow>
     push_generic_accepts t op \<or> op_generic_accepts t op \<or> \<not> item_differs t op"
  by (cases t) auto

lemma match_items_from_list_all2:
  "length script = length template \<Longrightarrow> i \<le> length script \<Longrightarrow>
   match_items_from script template i =
     list_all2 (\<lambda>script_item template_item. item_accepts template_item (fst script_item))
       (drop i script) (drop i template)"
proof (induction script template i rule: match_items_from.induct)
  case (1 script template i)
  show ?case
  proof (cases "i < length script")
    case True
    with "1.prems" have d: "drop i script = script ! i # drop (i + 1) script"
      "drop i template = template ! i # drop (i + 1) template"
      by (simp_all add: Cons_nth_drop_Suc)
    from True have le: "i + 1 \<le> length script" by simp
    show ?thesis
      using True d le "1.IH" "1.prems"(1)
      by (subst match_items_from.simps) (auto simp: item_accepts_iff Let_def)
  next
    case False
    with "1.prems" show ?thesis
      by (subst match_items_from.simps) simp
  qed
qed

lemma match_decoded_plain:
  "match_decoded decoded template = plain_template_match (before_rvn_asset decoded) template"
proof (cases "length (before_rvn_asset decoded) = length template")
  case True
  then show ?thesis
    unfolding match_decoded_def Let_def take_find_op_rvn_asset plain_template_match_def
    by (simp add: match_items_from_list_all2)
next
  case False
  then have "\<not> plain_template_match (before_rvn_asset decoded) template"
    by (auto simp: plain_template_match_def dest: list_all2_lengthD)
  with False show ?thesis
    unfolding match_decoded_def Let_def take_find_op_rvn_asset
    by simp
qed

lemma before_rvn_asset_idem: "before_rvn_asset (before_rvn_asset decoded) = before_rvn_asset decoded"
  by (simp add: before_rvn_asset_def)

text \<open>
  C7.  For every script and every template, \<^verbatim>\<open>match_script_against_template\<close> gives the
  result of matching, without any truncation, the prefix of the decoded script that
  strictly precedes the first \<^verbatim>\<open>OP_RVN_ASSET\<close>: for raw bytes (where a script that does
  not decode matches nothing), for a decoded script, and equally when the matcher itself
  is applied to that prefix.
\<close>

theorem match_ignores_asset_suffix:
  "match_script_against_template (ScriptBytes bs) template =
     (case script_GetOp bs of
        Inl e \<Rightarrow> False
      | Inr decoded \<Rightarrow> plain_template_match (before_rvn_asset decoded) template)
   \<and> match_script_against_template (ScriptDecoded decoded) template =
       plain_template_match (before_rvn_asset decoded) template
   \<and> match_script_against_template (ScriptDecoded decoded) template =
       match_script_against_template (ScriptDecoded (before_rvn_asset decoded)) template"
  by (simp add: match_script_against_template_def match_decoded_plain before_rvn_asset_idem
      split: sum.splits)

theorem match_ignores_asset_suffix_witness:
  "match_script_against_template (ScriptBytes [118, 2, 7, 7, 172, 192, 1, 9])
     [Opcode OP_DUP, OPPushDataGeneric (\<lambda>x. x = 2), Opcode OP_CHECKSIG]
   \<and> script_GetOp [118, 2, 7, 7, 172, 192, 1, 9] =
       Inr [(OP_DUP, None, 1), (2, Some [7, 7], 4), (OP_CHECKSIG, None, 5),
            (OP_RVN_ASSET, None, 6), (1, Some [9], 8)]
   \<and> \<not> match_script_against_template
         (ScriptDecoded [(OP_DUP, None, 1), (OP_RVN_ASSET, None, 2), (OP_CHECKSIG, None, 3)])
         [Opcode OP_DUP, OPGeneric (\<lambda>x. x = OP_RVN_ASSET), Opcode OP_CHECKSIG]"
  using match_ignores_asset_suffix
    [of "[118, 2, 7, 7, 172, 192, 1, 9]"
        "[Opcode OP_DUP, OPPushDataGeneric (\<lambda>x. x = 2), Opcode OP_CHECKSIG]"]
    match_ignores_asset_suffix
    [of _ "[Opcode OP_DUP, OPGeneric (\<lambda>x. x = OP_RVN_ASSET), Opcode OP_CHECKSIG]"
        "[(OP_DUP, None, 1), (OP_RVN_ASSET, None, 2), (OP_CHECKSIG, None, 3)]"]
  by (simp add: script_GetOp_def script_GetOp_from.simps push_size_def
      plain_template_match_def before_rvn_asset_def)

section \<open>Equality of outputs\<close>

text \<open>
  C10.  For every pair of \<^verbatim>\<open>TxOutput\<close> values, \<^verbatim>\<open>__eq__\<close> holds exactly when the scripts
  and the values are equal; the asset field plays no part, so changing the asset of
  either side never changes the result; \<^verbatim>\<open>__ne__\<close> is its negation.
\<close>

theorem TxOutput_eq_ignores_asset:
  "TxOutput_eq a (ObjTxOutput b) = (scriptpubkey a = scriptpubkey b \<and> value' a = value' b)
   \<and> TxOutput_eq (a\<lparr>asset := x\<rparr>) (ObjTxOutput (b\<lparr>asset := y\<rparr>)) = TxOutput_eq a (ObjTxOutput b)
   \<and> TxOutput_ne a (ObjTxOutput b) = (\<not> TxOutput_eq a (ObjTxOutput b))"
  by (simp add: TxOutput_ne_def)

theorem TxOutput_eq_ignores_asset_witness:
  "TxOutput_eq \<lparr>scriptpubkey = [118, 169], value' = IntValue 5, asset = Some ''A''\<rparr>
     (ObjTxOutput \<lparr>scriptpubkey = [118, 169], value' = IntValue 5, asset = Some ''B''\<rparr>)
   \<and> \<not> TxOutput_eq \<lparr>scriptpubkey = [118, 169], value' = IntValue 5, asset = None\<rparr>
         (ObjTxOutput \<lparr>scriptpubkey = [118, 169], value' = IntValue 6, asset = None\<rparr>)"
  using TxOutput_eq_ignores_asset
    [of "\<lparr>scriptpubkey = [118, 169], value' = IntValue 5, asset = Some ''A''\<rparr>"
        "\<lparr>scriptpubkey = [118, 169], value' = IntValue 5, asset = Some ''B''\<rparr>"]
  by simp

section \<open>Evaluation lemmas\<close>

lemma le_bytes_numeral:
  "le_bytes (numeral k) n = of_nat (n mod 256) # le_bytes (pred_numeral k) (n div 256)"
  by (simp only: numeral_eq_Suc [of k] le_bytes.simps)

lemmas wire_simps = int_to_hex_def var_int_def le_bytes_numeral bind_result_def
  TxOutpoint_serialize_to_network_def serialize_input_def TxOutput_serialize_to_network_def
  truthy_def

lemmas example_simps = example_tx_def example_input_def example_env_def
  PartialTxInput_init_def PartialTxOutput_init_def

lemmas segwit_simps = PartialTxInput_is_segwit_def TxInput_is_segwit_def is_native_segwit_def
  is_p2sh_segwit_def calc_if_p2sh_segwit_now_def txin_address_def txin_scriptpubkey_def

lemma bind_result_Inl [simp]: "bind_result (Inl e) f = Inl e"
  by (simp add: bind_result_def)

lemma bind_result_Inr [simp]: "bind_result (Inr x) f = f x"
  by (simp add: bind_result_def)

lemma bind_result_eq_Inr:
  "bind_result m f = Inr y \<longleftrightarrow> (\<exists>x. m = Inr x \<and> f x = Inr y)"
  by (cases m) simp_all

section \<open>Properties of the signature pre-image\<close>

lemma p2wpkh_in_segwit: "PartialTxInput_is_segwit example_env (p2wpkh_in h n) = Inr True"
  by (simp add: p2wpkh_in_def example_simps segwit_simps truthy_def)

lemma p2wpkh_in_preimage_script:
  "get_preimage_script example_env (p2wpkh_in h n) None []
     = Inr ([118, 169, 20] @ replicate 20 33 @ [136, 172])"
  unfolding get_preimage_script_def p2wpkh_in_segwit
  by (simp add: p2wpkh_in_def example_simps truthy_def standard_preimage_script_def
      py_index_def value_sats_def dict_get_def)

lemma p2wpkh_in_sighash: "sighash (p2wpkh_in h n) = None"
  by (simp add: p2wpkh_in_def example_input_def PartialTxInput_init_def)

text \<open>
  C1 (the claim as stated fails).  The only input of this transaction is a \<^verbatim>\<open>p2wpkh\<close>
  input, which is segwit; \<^verbatim>\<open>serialize_preimage(0)\<close> raises \<^verbatim>\<open>NotImplementedError\<close> and returns
  no pre-image.
\<close>

theorem serialize_preimage_segwit_counterexample:
  "PartialTxInput_is_segwit example_env (p2wpkh_in (replicate 32 17) 0) = Inr True
   \<and> serialize_preimage example_env
       (example_tx [p2wpkh_in (replicate 32 17) 0] [PartialTxOutput_init [118] (IntValue 5) None]) 0
     = Inl NotImplementedError"
  unfolding serialize_preimage_def
  by (simp add: example_tx_def p2wpkh_in_segwit p2wpkh_in_preimage_script p2wpkh_in_sighash
      SIGHASH_values_def Let_def int_to_hex_def)

text \<open>
  C1, amended.  For every partial transaction and every index of a segwit input,
  \<^verbatim>\<open>serialize_preimage\<close> returns no pre-image: it raises.  When the version, the locktime,
  the sighash flag and the preimage script are obtained without error, what it raises is
  the \<^verbatim>\<open>NotImplementedError\<close> of line 2284, before anything of BIP-143 is assembled.
\<close>

theorem serialize_preimage_segwit_not_implemented:
  assumes "txin_index < length (inputs self)"
      and "PartialTxInput_is_segwit env (inputs self ! txin_index) = Inr True"
  shows "(\<exists>e. serialize_preimage env self txin_index = Inl e)
       \<and> (\<forall>nVersion nLocktime preimage_script.
            int_to_hex (version self) 4 = Inr nVersion
            \<longrightarrow> int_to_hex (locktime self) 4 = Inr nLocktime
            \<longrightarrow> (case sighash (inputs self ! txin_index) of
                     None \<Rightarrow> SIGHASH_ALL | Some s \<Rightarrow> s) \<in> set SIGHASH_values
            \<longrightarrow> get_preimage_script env (inputs self ! txin_index) (tx_wallet self)
                   (prevout_overrides self) = Inr preimage_script
            \<longrightarrow> serialize_preimage env self txin_index = Inl NotImplementedError)"
proof -
  let ?txin = "inputs self ! txin_index"
  let ?hashtype = "case sighash ?txin of None \<Rightarrow> SIGHASH_ALL | Some s \<Rightarrow> s"
  have valid: "\<exists>b. int_to_hex ?hashtype 4 = Inr b" if "?hashtype \<in> set SIGHASH_values"
    using that by (auto simp: SIGHASH_values_def int_to_hex_def)
  have second: "serialize_preimage env self txin_index = Inl NotImplementedError"
    if "int_to_hex (version self) 4 = Inr nVersion"
      and "int_to_hex (locktime self) 4 = Inr nLocktime"
      and "?hashtype \<in> set SIGHASH_values"
      and "get_preimage_script env ?txin (tx_wallet self) (prevout_overrides self) = Inr s"
    for nVersion nLocktime s
  proof -
    from valid [OF that(3)] obtain b where "int_to_hex ?hashtype 4 = Inr b" ..
    with that assms show ?thesis
      unfolding serialize_preimage_def by (simp add: Let_def)
  qed
  have first: "\<exists>e. serialize_preimage env self txin_index = Inl e"
  proof (cases "serialize_preimage env self txin_index")
    case (Inl e)
    then show ?thesis by blast
  next
    case (Inr y)
    then have False
      using assms unfolding serialize_preimage_def
      by (auto simp: bind_result_eq_Inr Let_def split: if_splits)
    then show ?thesis ..
  qed
  from first second show ?thesis by blast
qed

theorem serialize_preimage_segwit_not_implemented_witness:
  "1 < length (inputs (example_tx [p2wpkh_in (replicate 32 17) 0, p2wpkh_in (replicate 32 34) 3]
                         [PartialTxOutput_init [118] (IntValue 5) None]))
   \<and> PartialTxInput_is_segwit example_env (p2wpkh_in (replicate 32 34) 3) = Inr True
   \<and> serialize_preimage example_env
        (example_tx [p2wpkh_in (replicate 32 17) 0, p2wpkh_in (replicate 32 34) 3]
           [PartialTxOutput_init [118] (IntValue 5) None]) 1
       = Inl NotImplementedError"
proof -
  let ?tx = "example_tx [p2wpkh_in (replicate 32 17) 0, p2wpkh_in (replicate 32 34) 3]
               [PartialTxOutput_init [118] (IntValue 5) None]"
  have 1: "1 < length (inputs ?tx)" by (simp add: example_tx_def)
  have 2: "PartialTxInput_is_segwit example_env (inputs ?tx ! 1) = Inr True"
    by (simp add: example_tx_def p2wpkh_in_segwit)
  have 3: "int_to_hex (version ?tx) 4 = Inr [2, 0, 0, 0]"
    "int_to_hex (locktime ?tx) 4 = Inr [0, 0, 0, 0]"
    by (simp_all add: example_tx_def int_to_hex_def le_bytes_numeral)
  have 4: "(case sighash (inputs ?tx ! 1) of None \<Rightarrow> SIGHASH_ALL | Some s \<Rightarrow> s)
             \<in> set SIGHASH_values"
    by (simp add: example_tx_def p2wpkh_in_sighash SIGHASH_values_def)
  have 5: "get_preimage_script example_env (inputs ?tx ! 1) (tx_wallet ?tx) (prevout_overrides ?tx)
             = Inr ([118, 169, 20] @ replicate 20 33 @ [136, 172])"
    by (simp add: example_tx_def p2wpkh_in_preimage_script)
  from serialize_preimage_segwit_not_implemented [OF 1 2] 3 4 5
  have "serialize_preimage example_env ?tx 1 = Inl NotImplementedError" by blast
  with 1 2 show ?thesis by (simp add: example_tx_def)
qed






section \<open>Properties of the BIP-69 ordering\<close>


















section \<open>Properties of the transaction id\<close>

lemma all_result_pure: "all_result (\<lambda>x. Inr (P x)) xs = Inr (list_all P xs)"
  by (induction xs) simp_all

lemma not_coinbase_example [simp]: "\<not> is_coinbase \<lparr>txid = 17 # replicate 31 0, out_idx = n\<rparr>"
proof -
  have "replicate 32 (0::byte) = 0 # replicate 31 0"
    by (simp add: numeral_eq_Suc)
  then show ?thesis by (simp add: is_coinbase_def)
qed

lemma final_witness_in_segwit: "PartialTxInput_is_segwit example_env final_witness_in = Inr True"
  by (simp add: final_witness_in_def example_input_def PartialTxInput_init_def
      PartialTxInput_is_segwit_def TxInput_is_segwit_def)

lemma final_witness_in_complete:
  "PartialTxInput_is_complete example_env final_witness_in = Inr False"
  by (simp add: PartialTxInput_is_complete_def final_witness_in_def example_input_def
      PartialTxInput_init_def is_coinbase_input_def)

lemma final_witness_in_script:
  "input_script example_env final_witness_in = Inl UnknownTxinType"
  unfolding input_script_def get_siglist_def final_witness_in_complete
  by (simp add: final_witness_in_def example_input_def PartialTxInput_init_def
      is_coinbase_input_def is_p2sh_segwit_def calc_if_p2sh_segwit_now_def is_native_segwit_def
      txin_address_def txin_scriptpubkey_def truthy_def)

lemma final_witness_ser:
  "serialize_to_network example_env (example_tx [final_witness_in] [pay_out]) True True
     = Inl UnknownTxinType"
  by (simp add: serialize_to_network_def serialize_to_network_with_def example_tx_def
      final_witness_in_script int_to_hex_def)

text \<open>
  C4 (the claim as stated fails).  The only input of this partial transaction holds a
  final witness, so every input is segwit; it has no script-sig and nothing tells its
  script type, so \<^verbatim>\<open>input_script\<close> raises \<^verbatim>\<open>UnknownTxinType\<close>, which \<^verbatim>\<open>txid()\<close> catches at
  line 1181: the result is \<^verbatim>\<open>None\<close>, not a hash.
\<close>

theorem txid_all_segwit_counterexample:
  "all_result (PartialTxInput_is_segwit example_env)
     (inputs (example_tx [final_witness_in] [pay_out])) = Inr True
   \<and> PartialTransaction_txid example_env (example_tx [final_witness_in] [pay_out])
       = Inr (None, example_tx [final_witness_in] [pay_out])"
proof -
  have a: "all_result (PartialTxInput_is_segwit example_env)
     (inputs (example_tx [final_witness_in] [pay_out])) = Inr True"
    by (simp add: example_tx_def final_witness_in_segwit)
  have c: "cached_txid (example_tx [final_witness_in] [pay_out]) = None"
    by (simp add: example_tx_def)
  show ?thesis
    by (simp add: PartialTransaction_txid_def txid_with_def a c final_witness_ser)
qed

lemma final_scriptsig_in_segwit:
  "PartialTxInput_is_segwit example_env final_scriptsig_in = Inr False"
  by (simp add: final_scriptsig_in_def example_simps segwit_simps truthy_def)

lemma final_scriptsig_in_complete:
  "PartialTxInput_is_complete example_env final_scriptsig_in = Inr True"
  unfolding PartialTxInput_is_complete_def final_scriptsig_in_segwit
  by (simp add: final_scriptsig_in_def example_input_def PartialTxInput_init_def
      is_coinbase_input_def)

lemma final_scriptsig_ser:
  "serialize_to_network example_env (example_tx [final_scriptsig_in] [pay_out]) True True
     = Inr ([2, 0, 0, 0] @ [1] @ rev (17 # replicate 31 0) @ [0, 0, 0, 0] @ [2, 1, 7]
            @ [254, 255, 255, 255] @ [1] @ [5, 0, 0, 0, 0, 0, 0, 0] @ [1, 118] @ [0, 0, 0, 0])"
  by (simp add: serialize_to_network_def serialize_to_network_with_def example_tx_def
      final_scriptsig_in_segwit input_script_def)
    (simp add: final_scriptsig_in_def example_input_def PartialTxInput_init_def pay_out_def
      PartialTxOutput_init_def wire_simps)

lemma example_input_segwit: "PartialTxInput_is_segwit example_env (example_input h n) = Inr False"
  by (simp add: example_simps segwit_simps truthy_def)

lemma example_input_complete:
  "PartialTxInput_is_complete example_env (example_input (17 # replicate 31 0) n) = Inr False"
  by (simp add: PartialTxInput_is_complete_def example_input_def PartialTxInput_init_def
      is_coinbase_input_def)

text \<open>
  C4, amended.  \<^verbatim>\<open>txid()\<close> returns the cached identifier when there is one.  Otherwise
  it returns \<^verbatim>\<open>None\<close> when not every input is segwit and the transaction is not complete.
  When every input is segwit, or the transaction is complete, it returns the
  byte-reversed double-SHA256 of the serialization with \<^verbatim>\<open>force_legacy\<close> (and stores it)
  if that serialization is produced, \<^verbatim>\<open>None\<close> if producing it raises \<^verbatim>\<open>UnknownTxinType\<close>,
  and it raises any other error of the serialization.  A plain \<^verbatim>\<open>Transaction\<close> is always
  complete.  The serialization with \<^verbatim>\<open>force_legacy\<close> is version, inputs, outputs and
  locktime: it has no marker, no flag and no witness.
\<close>

theorem txid_result:
  "(\<forall>t. cached_txid self = Some t \<longrightarrow> PartialTransaction_txid env self = Inr (Some t, self))
   \<and> (cached_txid self = None \<longrightarrow>
        all_result (PartialTxInput_is_segwit env) (inputs self) = Inr False \<longrightarrow>
        is_complete env self = Inr False \<longrightarrow>
        PartialTransaction_txid env self = Inr (None, self))
   \<and> (cached_txid self = None \<longrightarrow>
        (all_result (PartialTxInput_is_segwit env) (inputs self) = Inr True
         \<or> all_result (PartialTxInput_is_segwit env) (inputs self) = Inr False
           \<and> is_complete env self = Inr True) \<longrightarrow>
        (\<forall>ser. serialize_to_network env self True True = Inr ser \<longrightarrow>
           PartialTransaction_txid env self =
             Inr (Some (rev (sha256d env ser)),
                  self\<lparr>cached_txid := Some (rev (sha256d env ser))\<rparr>))
        \<and> (serialize_to_network env self True True = Inl UnknownTxinType \<longrightarrow>
             PartialTransaction_txid env self = Inr (None, self))
        \<and> (\<forall>e. serialize_to_network env self True True = Inl e \<longrightarrow> e \<noteq> UnknownTxinType \<longrightarrow>
             PartialTransaction_txid env self = Inl e))
   \<and> (\<forall>ser. cached_txid tx = None \<longrightarrow> Transaction_serialize_to_network tx True True = Inr ser \<longrightarrow>
        Transaction_txid hash tx =
          Inr (Some (rev (hash ser)), tx\<lparr>cached_txid := Some (rev (hash ser))\<rparr>))
   \<and> serialize_to_network_with script_of segwit_of witness_of any_tx include_sigs True =
       bind_result (int_to_hex (version any_tx) 4) (\<lambda>nVersion.
       bind_result (int_to_hex (locktime any_tx) 4) (\<lambda>nLocktime.
       bind_result
         (join_results
            (\<lambda>txin. bind_result (if include_sigs then script_of txin else Inr [])
                      (\<lambda>script. serialize_input txin script))
            (inputs any_tx)) (\<lambda>s_ins.
       bind_result (join_results TxOutput_serialize_to_network (outputs any_tx)) (\<lambda>s_outs.
       bind_result (any_result segwit_of (inputs any_tx)) (\<lambda>use_segwit_ser.
       Inr (nVersion @ var_int (length (inputs any_tx)) @ s_ins
            @ var_int (length (outputs any_tx)) @ s_outs @ nLocktime))))))"
  by (auto simp: PartialTransaction_txid_def Transaction_txid_def txid_with_def
      serialize_to_network_with_def Let_def all_result_pure split: option.splits sum.splits)

theorem txid_result_witness:
  "PartialTransaction_txid example_env (example_tx [final_scriptsig_in] [pay_out])
     = Inr (Some (replicate 32 63),
            (example_tx [final_scriptsig_in] [pay_out])\<lparr>cached_txid := Some (replicate 32 63)\<rparr>)
   \<and> PartialTransaction_txid example_env
        (example_tx [example_input (17 # replicate 31 0) 0] [pay_out])
       = Inr (None, example_tx [example_input (17 # replicate 31 0) 0] [pay_out])"
proof -
  let ?tx = "example_tx [final_scriptsig_in] [pay_out]"
  let ?tx2 = "example_tx [example_input (17 # replicate 31 0) 0] [pay_out]"
  let ?ser = "[2, 0, 0, 0] @ [1] @ rev (17 # replicate 31 0) @ [0, 0, 0, 0] @ [2, 1, 7]
            @ [254, 255, 255, 255] @ [1] @ [5, 0, 0, 0, 0, 0, 0, 0] @ [1, 118] @ [0, 0, 0, 0]"
  have c: "cached_txid ?tx = None" "cached_txid ?tx2 = None"
    by (simp_all add: example_tx_def)
  have a: "all_result (PartialTxInput_is_segwit example_env) (inputs ?tx) = Inr False"
    "all_result (PartialTxInput_is_segwit example_env) (inputs ?tx2) = Inr False"
    by (simp_all add: example_tx_def final_scriptsig_in_segwit example_input_segwit)
  have k: "is_complete example_env ?tx = Inr True" "is_complete example_env ?tx2 = Inr False"
    by (simp_all add: is_complete_def example_tx_def final_scriptsig_in_complete
        example_input_complete)
  have h: "rev (sha256d example_env ?ser) = replicate 32 63"
    by (simp add: example_env_def example_sha256d_def)
  from txid_result [of ?tx example_env] c(1) a(1) k(1) final_scriptsig_ser
  have "PartialTransaction_txid example_env ?tx
      = Inr (Some (rev (sha256d example_env ?ser)),
             ?tx\<lparr>cached_txid := Some (rev (sha256d example_env ?ser))\<rparr>)"
    by blast
  moreover from txid_result [of ?tx2 example_env] c(2) a(2) k(2)
  have "PartialTransaction_txid example_env ?tx2 = Inr (None, ?tx2)"
    by blast
  ultimately show ?thesis by (simp only: h)
qed

section \<open>Properties of the UTXO setters\<close>




























section \<open>Properties of the assignment of an incomplete transaction\<close>


























section \<open>Properties of the combination of two PSBTs\<close>















end
